theory Spec2Isabelle
  imports Complex_Main
begin

section \<open>Telegram IP bot: a model of main.py\<close>

text \<open>
  The script has three parts: the start-up that reads (or creates) the JSON configuration,
  the poller \<open>check_ip\<close> run by the main loop, and the message handler
  \<open>telepot_handle\<close> run by the transport. The outside world (the HTTP answer of the
  IP service, whether the transport's send raises, the files on disk, the JSON library)
  is given to each function as an argument; everything the script does to the world is
  recorded, in order, in a trace of events.
\<close>

subsection \<open>Python values, exceptions, events\<close>

text \<open>
  The values \<open>json.load\<close> can return. A float is given by its exact value.
  A dict is the list of its items (each key once); the first item with a key is its entry.
\<close>

datatype pyval =
    PNone
  | PBool bool
  | PInt int
  | PFloat real
  | PStr string
  | PList "pyval list"
  | PDict "(string \<times> pyval) list"

text \<open>The exceptions (all subclasses of Exception) that the script can meet.\<close>

datatype exn =
    KeyError
  | TypeError
  | AttributeError
  | FileNotFoundError
  | PermissionError
  | IsADirectoryError
  | JSONDecodeError
  | UnicodeDecodeError
  | RequestException
  | TelegramError

datatype level = INFO | WARNING | ERROR

text \<open>
  A piece of an f-string: literal text, or a replacement field with the value it formats
  (left unrendered).
\<close>

datatype frag = Lit string | Fmt pyval

text \<open>
  What the script does to the outside world:
  a record written by LOGGER.info / warning / error, LOGGER.exception called on an
  exception, the HTTP GET of the IP service, a call of bot.sendMessage with its chat
  id and text (the flag tells whether the call returned rather than raised), and a line
  printed on the console.
\<close>

datatype event =
    Log level "frag list"
  | LogException exn
  | HttpGet
  | SendMessage pyval string bool
  | Print string

text \<open>The global variable last_ip, and the trace of events so far (oldest first).\<close>

record state =
  last_ip :: "string option"
  trace :: "event list"

definition initial_state :: state where
  "initial_state = \<lparr>last_ip = None, trace = []\<rparr>"

definition emit :: "event list \<Rightarrow> state \<Rightarrow> state" where
  "emit es st = st\<lparr>trace := trace st @ es\<rparr>"

text \<open>The three fields read from the configuration; each is whatever JSON value the file held.\<close>

record config =
  bot_token :: pyval
  admin_username :: pyval
  admin_chat_id :: pyval

text \<open>Python's == between a str or an int and an arbitrary value.\<close>

fun str_eq :: "string \<Rightarrow> pyval \<Rightarrow> bool" where
  "str_eq s (PStr t) = (s = t)"
| "str_eq s _ = False"

fun int_eq :: "int \<Rightarrow> pyval \<Rightarrow> bool" where
  "int_eq n (PInt m) = (n = m)"
| "int_eq n (PBool b) = (n = (if b then 1 else 0))"
| "int_eq n (PFloat r) = (of_int n = r)"
| "int_eq n _ = False"

subsection \<open>get_ip\<close>

text \<open>
  What requests.get does: it raises, or it returns a response with a status code and a
  body; the body is given by the result of decoding it as UTF-8 (None when that raises).
\<close>

datatype http_outcome =
    HttpRaises
  | HttpResponse int "string option"

definition get_ip :: "http_outcome \<Rightarrow> state \<Rightarrow> string option \<times> state" where
  "get_ip fetch st =
     (let st1 = emit [HttpGet] st in
      case fetch of
        HttpRaises \<Rightarrow>
          (None, emit [LogException RequestException,
                       Log ERROR [Lit ''An unexpected exception occurred while trying to obtain the public IP address of the host machine.'']] st1)
      | HttpResponse status_code content \<Rightarrow>
          if status_code = 200 then
            (case content of
               None \<Rightarrow>
                 (None, emit [LogException UnicodeDecodeError,
                              Log ERROR [Lit ''An unexpected exception occurred while trying to obtain the public IP address of the host machine.'']] st1)
             | Some response_body \<Rightarrow>
                 (Some response_body,
                  emit [Log INFO [Lit ''Response from `https://api.ipify.org`: `'', Fmt (PStr response_body), Lit ''`.'']] st1))
          else
            (None, emit [Log ERROR [Lit ''Failed to get IP address (response.status_code: `'', Fmt (PInt status_code), Lit ''`).'']] st1))"

subsection \<open>send_message\<close>

text \<open>
  send_message(chat_id, message): one call of bot.sendMessage; \<open>ok\<close> tells whether
  that call returns. The result is True when it did, False when it raised.
\<close>

definition send_message :: "pyval \<Rightarrow> string \<Rightarrow> bool \<Rightarrow> state \<Rightarrow> bool \<times> state" where
  "send_message chat_id message ok st =
     (if ok then
        (True, emit [SendMessage chat_id message True,
                     Log INFO [Lit ''Sent message: `'', Fmt (PStr message), Lit ''` to chat ID: `'', Fmt chat_id, Lit ''`.'']] st)
      else
        (False, emit [SendMessage chat_id message False,
                      LogException TelegramError,
                      Log ERROR [Lit ''An unexpected exception occurred while trying to send a message.'']] st))"

subsection \<open>check_ip and the main loop\<close>

definition new_ip_message :: "string \<Rightarrow> string" where
  "new_ip_message current_ip = ''New public IP address detected: `'' @ current_ip @ ''`.''"

text \<open>
  check_ip has no path that raises: get_ip and send_message catch every exception
  themselves. Its result carries the exception slot (always empty) that the try statement
  of the main loop inspects.
\<close>

definition check_ip :: "config \<Rightarrow> http_outcome \<Rightarrow> bool \<Rightarrow> state \<Rightarrow> exn option \<times> state" where
  "check_ip cfg fetch ok st =
     (case get_ip fetch st of
        (None, st1) \<Rightarrow> (None, emit [Log ERROR [Lit ''Failed to update IP address.'']] st1)
      | (Some current_ip, st1) \<Rightarrow>
          if Some current_ip \<noteq> last_ip st1 then
            (let message = new_ip_message current_ip;
                 st2 = emit [Log INFO [Lit message]] st1;
                 (update_ip, st3) =
                   (if admin_chat_id cfg \<noteq> PNone
                    then send_message (admin_chat_id cfg) message ok st2
                    else (True, st2))
             in if update_ip then (None, st3\<lparr>last_ip := Some current_ip\<rparr>) else (None, st3))
          else (None, st1))"

text \<open>
  try: body  except Exception as exception: LOGGER.exception(exception); LOGGER.error(text).
  The result says, like that of the body, which exception leaves the statement, if any.
\<close>

definition try_except :: "exn option \<times> state \<Rightarrow> string \<Rightarrow> exn option \<times> state" where
  "try_except r msg =
     (case r of
        (None, st) \<Rightarrow> (None, st)
      | (Some e, st) \<Rightarrow> (None, emit [LogException e, Log ERROR [Lit msg]] st))"

text \<open>One pass of the body of while True (the sleep of 60 seconds is not modelled).\<close>

definition main_loop_iteration :: "config \<Rightarrow> http_outcome \<times> bool \<Rightarrow> state \<Rightarrow> exn option \<times> state" where
  "main_loop_iteration cfg env st =
     try_except (check_ip cfg (fst env) (snd env) st)
       ''An unexpected exception occurred while checking the public IP address of the host machine.''"

text \<open>
  The first passes of the loop, one per element of the list of outcomes. An exception that
  leaves a pass ends the loop (and the process).
\<close>

fun main_loop :: "config \<Rightarrow> (http_outcome \<times> bool) list \<Rightarrow> state \<Rightarrow> exn option \<times> state" where
  "main_loop cfg [] st = (None, st)"
| "main_loop cfg (env # envs) st =
     (case main_loop_iteration cfg env st of
        (None, st1) \<Rightarrow> main_loop cfg envs st1
      | (Some e, st1) \<Rightarrow> (Some e, st1))"

text \<open>
  The try statement of the main loop (lines 294 to 298) with any call \<open>check\<close> in the
  place of the call of check_ip: main_loop_iteration is its instance at check_ip.
\<close>

definition main_loop_try :: "(state \<Rightarrow> exn option \<times> state) \<Rightarrow> state \<Rightarrow> exn option \<times> state" where
  "main_loop_try check st =
     try_except (check st)
       ''An unexpected exception occurred while checking the public IP address of the host machine.''"

text \<open>The loop with one such call for each pass; main_loop is its instance at check_ip.\<close>

fun main_loop_of :: "(state \<Rightarrow> exn option \<times> state) list \<Rightarrow> state \<Rightarrow> exn option \<times> state" where
  "main_loop_of [] st = (None, st)"
| "main_loop_of (check # checks) st =
     (case main_loop_try check st of
        (None, st1) \<Rightarrow> main_loop_of checks st1
      | (Some e, st1) \<Rightarrow> (Some e, st1))"

subsection \<open>telepot_handle\<close>

text \<open>
  The transport hands each inbound message to the handler as a plain dict decoded from
  JSON. The record lists what the handler reads from that dict:
  the content type \<open>telepot.glance\<close> finds (the first of the transport's content-type keys
  that the dict has, \<open>text\<close> for a text message; None when it has none and glance raises
  KeyError), the entries msg['chat']['type'] and msg['chat']['id'], and the entry
  msg['from']['username'] (None when the sender has no username or the message has no
  sender, so that the lookup raises KeyError).
\<close>

record message =
  msg_content_type :: "string option"
  msg_chat_type :: string
  msg_chat_id :: int
  msg_from_username :: "string option"

definition glance :: "message \<Rightarrow> exn + (string \<times> string \<times> int)" where
  "glance msg =
     (case msg_content_type msg of
        None \<Rightarrow> Inl KeyError
      | Some content_type \<Rightarrow> Inr (content_type, msg_chat_type msg, msg_chat_id msg))"

text \<open>
  msg.text is an attribute access on the dict (the text of the message is the entry
  msg['text']); a dict has no attribute of that name, so the access raises AttributeError.
\<close>

definition getattr_text :: "message \<Rightarrow> exn + pyval" where
  "getattr_text msg = Inl AttributeError"

text \<open>
  The if statement of lines 263 to 277. In the branch where get_ip returned None,
  send_message is called with one argument, which raises TypeError before anything is sent.
\<close>

definition telepot_handle_reply ::
  "config \<Rightarrow> http_outcome \<Rightarrow> bool \<Rightarrow> string \<Rightarrow> string \<Rightarrow> int \<Rightarrow> string \<Rightarrow> state \<Rightarrow> exn option \<times> state" where
  "telepot_handle_reply cfg fetch ok content_type chat_type chat_id chat_username st =
     (if content_type = ''text'' \<and> chat_type = ''private''
         \<and> str_eq chat_username (admin_username cfg) \<and> int_eq chat_id (admin_chat_id cfg)
      then
        (case get_ip fetch st of
           (None, st1) \<Rightarrow> (Some TypeError, st1)
         | (Some ip, st1) \<Rightarrow>
             (None, snd (send_message (PInt chat_id) (''IP: `'' @ ip @ ''`.'') ok st1)))
      else
        (None, snd (send_message (PInt chat_id) ''You are not authorized to interact with this bot.'' ok
                 (emit [Log WARNING [Lit ''Received message from unauthorized user: `'', Fmt (PStr chat_username),
                                     Lit ''` (chat_id: `'', Fmt (PInt chat_id), Lit ''`).'']] st))))"

text \<open>The body of the try statement of telepot_handle (lines 259 to 277).\<close>

definition telepot_handle_body ::
  "config \<Rightarrow> http_outcome \<Rightarrow> bool \<Rightarrow> message \<Rightarrow> state \<Rightarrow> exn option \<times> state" where
  "telepot_handle_body cfg fetch ok msg st =
     (case glance msg of
        Inl e \<Rightarrow> (Some e, st)
      | Inr (content_type, chat_type, chat_id) \<Rightarrow>
          (case msg_from_username msg of
             None \<Rightarrow> (Some KeyError, st)
           | Some chat_username \<Rightarrow>
               (case getattr_text msg of
                  Inl e \<Rightarrow> (Some e, st)
                | Inr text_value \<Rightarrow>
                    telepot_handle_reply cfg fetch ok content_type chat_type chat_id chat_username
                      (emit [Log INFO [Lit ''Received `'', Fmt (PStr chat_type), Lit '' '', Fmt (PStr content_type),
                                       Lit ''` message from `'', Fmt (PStr chat_username),
                                       Lit ''` (chat_id: `'', Fmt (PInt chat_id), Lit ''`): `'', Fmt text_value,
                                       Lit ''`.'']] st))))"

definition telepot_handle :: "config \<Rightarrow> http_outcome \<Rightarrow> bool \<Rightarrow> message \<Rightarrow> state \<Rightarrow> exn option \<times> state" where
  "telepot_handle cfg fetch ok msg st =
     try_except (telepot_handle_body cfg fetch ok msg st)
       ''An unexpected exception occurred while responding to a chat callback.''"

text \<open>
  The two activities of the running script, each with the outcomes the world gives it:
  a pass of the main loop, and the handling of an inbound message. A run is any sequence
  of them; it ends at the first exception that leaves an activity.
\<close>

datatype activity =
    Tick http_outcome bool
  | Inbound http_outcome bool message

fun step :: "config \<Rightarrow> activity \<Rightarrow> state \<Rightarrow> exn option \<times> state" where
  "step cfg (Tick fetch ok) st = main_loop_iteration cfg (fetch, ok) st"
| "step cfg (Inbound fetch ok msg) st = telepot_handle cfg fetch ok msg st"

fun run :: "config \<Rightarrow> activity list \<Rightarrow> state \<Rightarrow> exn option \<times> state" where
  "run cfg [] st = (None, st)"
| "run cfg (a # as) st =
     (case step cfg a st of
        (None, st1) \<Rightarrow> run cfg as st1
      | (Some e, st1) \<Rightarrow> (Some e, st1))"

subsection \<open>Files and the JSON module\<close>

text \<open>
  A path names a directory or a regular file with its read and write permissions and its
  text. \<open>dir_writable\<close> tells whether a new file can be created in the working directory.
\<close>

datatype node = Directory | RegularFile bool bool string

record filesystem =
  nodes :: "string \<Rightarrow> node option"
  dir_writable :: bool

text \<open>
  The json module is taken as given: \<open>load\<close> parses the text of a file (or raises),
  \<open>dumps\<close> is the text that json.dump with indent = 4 writes for a value.
\<close>

record json_module =
  load :: "string \<Rightarrow> exn + pyval"
  dumps :: "pyval \<Rightarrow> string"

definition CONFIGURATION_FILE_PATH :: string where
  "CONFIGURATION_FILE_PATH = ''configuration.json''"

definition file_exists :: "filesystem \<Rightarrow> string \<Rightarrow> bool" where
  "file_exists fs path =
     (case nodes fs path of
        Some (RegularFile readable writable content) \<Rightarrow> readable
      | _ \<Rightarrow> False)"

text \<open>open(path, "r") and open(path, "w"); the latter creates the file or empties it.\<close>

definition open_read :: "filesystem \<Rightarrow> string \<Rightarrow> exn + string" where
  "open_read fs path =
     (case nodes fs path of
        None \<Rightarrow> Inl FileNotFoundError
      | Some Directory \<Rightarrow> Inl IsADirectoryError
      | Some (RegularFile readable writable content) \<Rightarrow>
          if readable then Inr content else Inl PermissionError)"

definition open_write :: "filesystem \<Rightarrow> string \<Rightarrow> exn + filesystem" where
  "open_write fs path =
     (case nodes fs path of
        None \<Rightarrow>
          if dir_writable fs
          then Inr (fs\<lparr>nodes := (nodes fs)(path \<mapsto> RegularFile True True [])\<rparr>)
          else Inl PermissionError
      | Some Directory \<Rightarrow> Inl IsADirectoryError
      | Some (RegularFile readable writable content) \<Rightarrow>
          if writable
          then Inr (fs\<lparr>nodes := (nodes fs)(path \<mapsto> RegularFile readable writable [])\<rparr>)
          else Inl PermissionError)"

definition file_write :: "filesystem \<Rightarrow> string \<Rightarrow> string \<Rightarrow> filesystem" where
  "file_write fs path s =
     (case nodes fs path of
        Some (RegularFile readable writable content) \<Rightarrow>
          fs\<lparr>nodes := (nodes fs)(path \<mapsto> RegularFile readable writable (content @ s))\<rparr>
      | _ \<Rightarrow> fs)"

definition read_json :: "json_module \<Rightarrow> filesystem \<Rightarrow> string \<Rightarrow> pyval \<times> event list" where
  "read_json json fs path =
     (case open_read fs path of
        Inl e \<Rightarrow>
          (PNone, [LogException e,
                   Log ERROR [Lit ''Failed to read JSON data from `'', Fmt (PStr path), Lit ''`.'']])
      | Inr content \<Rightarrow>
          (case load json content of
             Inl e \<Rightarrow>
               (PNone, [LogException e,
                        Log ERROR [Lit ''Failed to read JSON data from `'', Fmt (PStr path), Lit ''`.'']])
           | Inr data \<Rightarrow>
               (data, [Log INFO [Lit ''Read JSON data at `'', Fmt (PStr path), Lit ''`.'']])))"

text \<open>
  An argument of json.dump is an open file (named by its path) or a value.
  json.dump(obj, fp) serialises obj and writes the text to fp: a file object is not
  serialisable (TypeError, raised before anything is written), and a value has no
  write method (AttributeError).
\<close>

datatype pyarg = FileObject string | Value pyval

definition json_dump :: "json_module \<Rightarrow> pyarg \<Rightarrow> pyarg \<Rightarrow> filesystem \<Rightarrow> exn + filesystem" where
  "json_dump json obj fp fs =
     (case obj of
        FileObject p \<Rightarrow> Inl TypeError
      | Value data \<Rightarrow>
          (case fp of
             FileObject path \<Rightarrow> Inr (file_write fs path (dumps json data))
           | Value v \<Rightarrow> Inl AttributeError))"

text \<open>write_json calls json.dump(file, data, indent = 4): the file first, the data second.\<close>

definition write_json :: "json_module \<Rightarrow> filesystem \<Rightarrow> string \<Rightarrow> pyval \<Rightarrow> bool \<times> filesystem \<times> event list" where
  "write_json json fs path data =
     (case open_write fs path of
        Inl e \<Rightarrow>
          (False, fs, [LogException e,
                       Log ERROR [Lit ''Failed to write JSON data to `'', Fmt (PStr path), Lit ''`'']])
      | Inr fs1 \<Rightarrow>
          (case json_dump json (FileObject path) (Value data) fs1 of
             Inl e \<Rightarrow>
               (False, fs1, [LogException e,
                             Log ERROR [Lit ''Failed to write JSON data to `'', Fmt (PStr path), Lit ''`'']])
           | Inr fs2 \<Rightarrow>
               (True, fs2, [Log INFO [Lit ''Wrote JSON data to `'', Fmt (PStr path), Lit ''`.'']])))"

subsection \<open>Reading the configuration at start-up\<close>

text \<open>configuration[key] for a str key.\<close>

fun subscript :: "pyval \<Rightarrow> string \<Rightarrow> exn + pyval" where
  "subscript (PDict items) key = (case map_of items key of None \<Rightarrow> Inl KeyError | Some v \<Rightarrow> Inr v)"
| "subscript _ key = Inl TypeError"

text \<open>
  read_field(key, dictionary) reads the global \<open>configuration\<close>, here its first
  argument, and leaves its parameter \<open>dictionary\<close> unused.
\<close>

definition read_field :: "pyval \<Rightarrow> string \<Rightarrow> pyval \<Rightarrow> pyval \<times> event list" where
  "read_field configuration key dictionary =
     (case subscript configuration key of
        Inl e \<Rightarrow>
          (PNone, [LogException e,
                   Log ERROR [Lit ''Failed to read value of `'', Fmt (PStr key), Lit ''`.'']])
      | Inr v \<Rightarrow>
          if v \<noteq> PNone then (v, [])
          else (PNone, [Log INFO [Lit ''Read value of `'', Fmt (PStr key), Lit ''`.''],
                        Log ERROR [Lit ''Failed to read value of `'', Fmt (PStr key), Lit ''`.'']]))"

definition template_configuration :: pyval where
  "template_configuration =
     PDict [(''bot_token'', PStr ''bot token here''),
            (''admin_username'', PStr ''Telegram username here''),
            (''admin_chat_id'', PInt 12345)]"

text \<open>
  The module-level statements of lines 139 to 171: the process exits with a code, or goes
  on (to start the bot and the main loop) with the three fields it read.
\<close>

datatype outcome = Exit int | Configured config

definition startup :: "json_module \<Rightarrow> filesystem \<Rightarrow> outcome \<times> filesystem \<times> event list" where
  "startup json fs =
     (if file_exists fs CONFIGURATION_FILE_PATH then
        (case read_json json fs CONFIGURATION_FILE_PATH of
           (configuration, log0) \<Rightarrow>
             if configuration \<noteq> PNone then
               (case read_field configuration ''bot_token'' configuration of
                  (bot_token', log1) \<Rightarrow>
               (case read_field configuration ''admin_username'' configuration of
                  (admin_username', log2) \<Rightarrow>
               (case read_field configuration ''admin_chat_id'' configuration of
                  (admin_chat_id', log3) \<Rightarrow>
                 if bot_token' = PNone \<or> admin_username' = PNone \<or> admin_chat_id' = PNone then
                   (Exit 1, fs,
                    log0 @ log1 @ log2 @ log3 @
                    [Log ERROR [Lit ''Failed to read JSON configuration.''],
                     Print ''Either repair the existing JSON configuration, or delete it and re-run this script.''])
                 else
                   (Configured \<lparr>bot_token = bot_token', admin_username = admin_username',
                                admin_chat_id = admin_chat_id'\<rparr>, fs,
                    log0 @ log1 @ log2 @ log3 @
                    [Log INFO [Lit ''Successfully read JSON configuration.'']]))))
             else
               (Exit 1, fs, log0 @ [Log ERROR [Lit ''Failed to read JSON configuration file.'']]))
      else
        (case write_json json fs CONFIGURATION_FILE_PATH template_configuration of
           (written, fs1, log1) \<Rightarrow>
             (Exit 0, fs1,
              [Log WARNING [Lit ''No configuration file found, creating one...'']] @ log1 @
              [Print ''Please edit the configuration file and re-run this script.''])))"

subsection \<open>Example inputs\<close>

definition example_config :: config where
  "example_config = \<lparr>bot_token = PStr ''123:abc'', admin_username = PStr ''alice'', admin_chat_id = PInt 42\<rparr>"

text \<open>A private text message to the bot from the user alice, in the chat of id 42.\<close>

definition example_message :: message where
  "example_message = \<lparr>msg_content_type = Some ''text'', msg_chat_type = ''private'',
                       msg_chat_id = 42, msg_from_username = Some ''alice''\<rparr>"

text \<open>
  A configuration file without the field admin_username, and a json module that parses it.
\<close>

definition example_json :: json_module where
  "example_json = \<lparr>load = (\<lambda>s. if s = ''{\"bot_token\": \"123:abc\", \"admin_chat_id\": 42}''
                                then Inr (PDict [(''bot_token'', PStr ''123:abc''), (''admin_chat_id'', PInt 42)])
                                else Inl JSONDecodeError),
                    dumps = (\<lambda>v. ''{}'')\<rparr>"

definition example_files :: filesystem where
  "example_files =
     \<lparr>nodes = [CONFIGURATION_FILE_PATH \<mapsto>
                 RegularFile True True ''{\"bot_token\": \"123:abc\", \"admin_chat_id\": 42}''],
      dir_writable = True\<rparr>"

subsection \<open>Reading a trace\<close>

text \<open>The calls of bot.sendMessage in a trace, in order.\<close>

fun sends :: "event list \<Rightarrow> (pyval \<times> string \<times> bool) list" where
  "sends [] = []"
| "sends (SendMessage c m b # es) = (c, m, b) # sends es"
| "sends (_ # es) = sends es"

fun fetches :: "event list \<Rightarrow> nat" where
  "fetches [] = 0"
| "fetches (HttpGet # es) = Suc (fetches es)"
| "fetches (_ # es) = fetches es"

section \<open>Properties\<close>

lemma sends_append: "sends (xs @ ys) = sends xs @ sends ys"
  by (induction xs rule: sends.induct) simp_all

lemma fetches_append: "fetches (xs @ ys) = fetches xs + fetches ys"
  by (induction xs rule: fetches.induct) simp_all

lemma get_ip_last_ip: "last_ip (snd (get_ip fetch st)) = last_ip st"
  by (simp add: get_ip_def emit_def Let_def split: http_outcome.splits option.splits)

lemma get_ip_sends: "sends (trace (snd (get_ip fetch st))) = sends (trace st)"
  by (simp add: get_ip_def emit_def Let_def sends_append split: http_outcome.splits option.splits)

lemma get_ip_fetches: "fetches (trace (snd (get_ip fetch st))) = Suc (fetches (trace st))"
  by (simp add: get_ip_def emit_def Let_def fetches_append split: http_outcome.splits option.splits)

lemma get_ip_result: "fst (get_ip fetch st) = fst (get_ip fetch st')"
  by (simp add: get_ip_def Let_def split: http_outcome.splits option.splits)

subsection \<open>The poller\<close>

lemma check_ip_no_raise: "fst (check_ip cfg fetch ok st) = None"
  by (simp add: check_ip_def Let_def split: prod.splits option.splits)

lemma main_loop_iteration_eq:
  "main_loop_iteration cfg env st = (None, snd (check_ip cfg (fst env) (snd env) st))"
  using check_ip_no_raise [of cfg "fst env" "snd env" st]
  by (cases "check_ip cfg (fst env) (snd env) st") (simp add: main_loop_iteration_def try_except_def)

text \<open>No pass ends the loop: the next pass starts from the state the pass left.\<close>

lemma main_loop_Cons:
  "main_loop cfg (env # envs) st = main_loop cfg envs (snd (main_loop_iteration cfg env st))"
  by (simp add: main_loop_iteration_eq)

declare main_loop.simps(2) [simp del]
declare main_loop_Cons [simp]

lemma main_loop_no_raise: "fst (main_loop cfg envs st) = None"
  by (induction envs arbitrary: st) simp_all

lemma check_ip_fetch_failed:
  assumes "fst (get_ip fetch st) = None"
  shows "last_ip (snd (check_ip cfg fetch ok st)) = last_ip st"
    and "sends (trace (snd (check_ip cfg fetch ok st))) = sends (trace st)"
  using assms get_ip_last_ip [of fetch st] get_ip_sends [of fetch st]
  by (auto simp: check_ip_def emit_def sends_append split: prod.splits option.splits)

lemma check_ip_unchanged:
  assumes "fst (get_ip fetch st) = Some ip" and "last_ip st = Some ip"
  shows "last_ip (snd (check_ip cfg fetch ok st)) = last_ip st"
    and "sends (trace (snd (check_ip cfg fetch ok st))) = sends (trace st)"
  using assms get_ip_last_ip [of fetch st] get_ip_sends [of fetch st]
  by (auto simp: check_ip_def emit_def sends_append split: prod.splits option.splits)

lemma check_ip_changed:
  assumes "fst (get_ip fetch st) = Some ip" and "last_ip st \<noteq> Some ip" and "admin_chat_id cfg \<noteq> PNone"
  shows "last_ip (snd (check_ip cfg fetch ok st)) = (if ok then Some ip else last_ip st)"
    and "sends (trace (snd (check_ip cfg fetch ok st))) = sends (trace st) @ [(admin_chat_id cfg, new_ip_message ip, ok)]"
  using assms get_ip_last_ip [of fetch st] get_ip_sends [of fetch st]
  by (auto simp: check_ip_def emit_def sends_append send_message_def Let_def split: prod.splits option.splits)

lemma check_ip_changed_no_admin:
  assumes "fst (get_ip fetch st) = Some ip" and "last_ip st \<noteq> Some ip" and "admin_chat_id cfg = PNone"
  shows "last_ip (snd (check_ip cfg fetch ok st)) = Some ip"
    and "sends (trace (snd (check_ip cfg fetch ok st))) = sends (trace st)"
  using assms get_ip_last_ip [of fetch st] get_ip_sends [of fetch st]
  by (auto simp: check_ip_def emit_def sends_append send_message_def Let_def split: prod.splits option.splits)

lemma main_loop_append: "main_loop cfg (xs @ ys) st = main_loop cfg ys (snd (main_loop cfg xs st))"
  by (induction xs arbitrary: st) simp_all

lemma main_loop_failed_fetches:
  assumes "\<forall>env \<in> set envs. fst (get_ip (fst env) initial_state) = None"
  shows "last_ip (snd (main_loop cfg envs st)) = last_ip st \<and> sends (trace (snd (main_loop cfg envs st))) = sends (trace st)"
  using assms
proof (induction envs arbitrary: st)
  case Nil
  then show ?case by simp
next
  case (Cons env envs)
  obtain fetch ok where env: "env = (fetch, ok)" by (cases env)
  from Cons.prems env have "fst (get_ip fetch initial_state) = None" by simp
  then have f: "fst (get_ip fetch st) = None" using get_ip_result [of fetch st initial_state] by simp
  have "last_ip (snd (main_loop_iteration cfg env st)) = last_ip st"
       "sends (trace (snd (main_loop_iteration cfg env st))) = sends (trace st)"
    using check_ip_fetch_failed [OF f] by (simp_all add: env main_loop_iteration_eq)
  moreover have "last_ip (snd (main_loop cfg envs (snd (main_loop_iteration cfg env st)))) = last_ip (snd (main_loop_iteration cfg env st))
      \<and> sends (trace (snd (main_loop cfg envs (snd (main_loop_iteration cfg env st))))) = sends (trace (snd (main_loop_iteration cfg env st)))"
    using Cons.IH Cons.prems by simp
  ultimately show ?case by simp
qed

lemma get_ip_200: "fst (get_ip (HttpResponse 200 (Some ip)) st) = Some ip"
  by (simp add: get_ip_def Let_def)

lemma successful_tick:
  assumes "admin_chat_id cfg \<noteq> PNone"
  shows "last_ip (snd (main_loop_iteration cfg (HttpResponse 200 (Some ip), True) st)) = Some ip"
    and "sends (trace (snd (main_loop_iteration cfg (HttpResponse 200 (Some ip), True) st)))
           = sends (trace st) @ (if last_ip st = Some ip then [] else [(admin_chat_id cfg, new_ip_message ip, True)])"
proof -
  note f = get_ip_200 [of ip st]
  show "last_ip (snd (main_loop_iteration cfg (HttpResponse 200 (Some ip), True) st)) = Some ip"
    using check_ip_unchanged(1) [OF f, of cfg True] check_ip_changed(1) [OF f _ assms, of True]
    by (cases "last_ip st = Some ip") (simp_all add: main_loop_iteration_eq)
  show "sends (trace (snd (main_loop_iteration cfg (HttpResponse 200 (Some ip), True) st)))
           = sends (trace st) @ (if last_ip st = Some ip then [] else [(admin_chat_id cfg, new_ip_message ip, True)])"
    using check_ip_unchanged(2) [OF f, of cfg True] check_ip_changed(2) [OF f _ assms, of True]
    by (cases "last_ip st = Some ip") (simp_all add: main_loop_iteration_eq)
qed

lemma five_ticks_sends:
  assumes "A \<noteq> B" and "admin_chat_id cfg \<noteq> PNone"
  shows "sends (trace (snd (main_loop cfg
           [(HttpResponse 200 (Some A), True), (HttpResponse 200 (Some A), True),
            (HttpResponse 200 (Some B), True), (HttpResponse 200 (Some B), True),
            (HttpResponse 200 (Some A), True)] st)))
         = sends (trace st)
           @ (if last_ip st = Some A then [] else [(admin_chat_id cfg, new_ip_message A, True)])
           @ [(admin_chat_id cfg, new_ip_message B, True), (admin_chat_id cfg, new_ip_message A, True)]"
  using assms by (simp add: successful_tick)

text \<open>
  Claim C3, as amended. Five passes of the main loop whose fetches return A, A, B, B, A
  (A different from B), every fetch and every send succeeding, with an admin chat id
  configured and last_ip already equal to A before the first pass: exactly two
  notifications are sent, the first with the message for B, the second with the message
  for A, both to the admin chat id.
  Started from the initial state (last_ip unset) the same five passes send three: the
  first pass announces A (lemma \<open>five_ticks_sends\<close>, and the counterexample below).
\<close>

theorem five_ticks_two_notifications:
  assumes "A \<noteq> B" and "last_ip st = Some A" and "admin_chat_id cfg \<noteq> PNone"
  shows "sends (trace (snd (main_loop cfg
           [(HttpResponse 200 (Some A), True), (HttpResponse 200 (Some A), True),
            (HttpResponse 200 (Some B), True), (HttpResponse 200 (Some B), True),
            (HttpResponse 200 (Some A), True)] st)))
         = sends (trace st)
           @ [(admin_chat_id cfg, new_ip_message B, True), (admin_chat_id cfg, new_ip_message A, True)]"
  using five_ticks_sends [OF assms(1) assms(3), of st] assms(2) by simp

theorem five_ticks_two_notifications_witness:
  "''1.1.1.1'' \<noteq> ''2.2.2.2''
   \<and> last_ip \<lparr>last_ip = Some ''1.1.1.1'', trace = []\<rparr> = Some ''1.1.1.1''
   \<and> admin_chat_id example_config \<noteq> PNone
   \<and> sends (trace (snd (main_loop example_config
           [(HttpResponse 200 (Some ''1.1.1.1''), True), (HttpResponse 200 (Some ''1.1.1.1''), True),
            (HttpResponse 200 (Some ''2.2.2.2''), True), (HttpResponse 200 (Some ''2.2.2.2''), True),
            (HttpResponse 200 (Some ''1.1.1.1''), True)] \<lparr>last_ip = Some ''1.1.1.1'', trace = []\<rparr>)))
       = [(PInt 42, ''New public IP address detected: `2.2.2.2`.'', True),
          (PInt 42, ''New public IP address detected: `1.1.1.1`.'', True)]"
proof -
  have h1: "''1.1.1.1'' \<noteq> ''2.2.2.2''" by simp
  have h2: "last_ip \<lparr>last_ip = Some ''1.1.1.1'', trace = []\<rparr> = Some ''1.1.1.1''" by simp
  have h3: "admin_chat_id example_config \<noteq> PNone" by (simp add: example_config_def)
  show ?thesis
    using h1 h2 h3 five_ticks_two_notifications [OF h1 h2 h3]
    by (simp add: example_config_def new_ip_message_def)
qed

theorem five_ticks_from_start_counterexample:
  "sends (trace (snd (main_loop example_config
           [(HttpResponse 200 (Some ''1.1.1.1''), True), (HttpResponse 200 (Some ''1.1.1.1''), True),
            (HttpResponse 200 (Some ''2.2.2.2''), True), (HttpResponse 200 (Some ''2.2.2.2''), True),
            (HttpResponse 200 (Some ''1.1.1.1''), True)] initial_state)))
       = [(PInt 42, ''New public IP address detected: `1.1.1.1`.'', True),
          (PInt 42, ''New public IP address detected: `2.2.2.2`.'', True),
          (PInt 42, ''New public IP address detected: `1.1.1.1`.'', True)]
   \<and> length (sends (trace (snd (main_loop example_config
           [(HttpResponse 200 (Some ''1.1.1.1''), True), (HttpResponse 200 (Some ''1.1.1.1''), True),
            (HttpResponse 200 (Some ''2.2.2.2''), True), (HttpResponse 200 (Some ''2.2.2.2''), True),
            (HttpResponse 200 (Some ''1.1.1.1''), True)] initial_state)))) \<noteq> 2"
  by (simp add: main_loop_iteration_def try_except_def check_ip_def get_ip_def send_message_def
        emit_def Let_def initial_state_def example_config_def new_ip_message_def)

text \<open>
  Claim C4. On a pass of the main loop whose fetch returns a value different from last_ip:
  with an admin chat id configured and the send failing, last_ip keeps its old value and
  the notification was attempted once; the next pass whose fetch succeeds with the same
  value (after any number of passes whose fetch fails) attempts the same notification
  again; with the send succeeding last_ip becomes the new value; and with no admin chat
  id configured last_ip becomes the new value.
\<close>

theorem failed_send_keeps_last_ip:
  assumes "fst (get_ip fetch st) = Some ip" and "last_ip st \<noteq> Some ip"
  shows "(admin_chat_id cfg \<noteq> PNone \<longrightarrow>
            last_ip (snd (main_loop_iteration cfg (fetch, False) st)) = last_ip st
          \<and> sends (trace (snd (main_loop_iteration cfg (fetch, False) st)))
              = sends (trace st) @ [(admin_chat_id cfg, new_ip_message ip, False)]
          \<and> (\<forall>envs ok'. (\<forall>env \<in> set envs. fst (get_ip (fst env) initial_state) = None) \<longrightarrow>
                sends (trace (snd (main_loop cfg (envs @ [(fetch, ok')]) (snd (main_loop_iteration cfg (fetch, False) st)))))
                  = sends (trace st) @ [(admin_chat_id cfg, new_ip_message ip, False),
                                        (admin_chat_id cfg, new_ip_message ip, ok')])
          \<and> last_ip (snd (main_loop_iteration cfg (fetch, True) st)) = Some ip)
       \<and> (admin_chat_id cfg = PNone \<longrightarrow> last_ip (snd (main_loop_iteration cfg (fetch, ok) st)) = Some ip)"
proof (intro conjI impI allI)
  assume adm: "admin_chat_id cfg \<noteq> PNone"
  let ?st1 = "snd (main_loop_iteration cfg (fetch, False) st)"
  show keep: "last_ip ?st1 = last_ip st"
    using check_ip_changed(1) [OF assms adm, of False] by (simp add: main_loop_iteration_eq)
  show first: "sends (trace ?st1) = sends (trace st) @ [(admin_chat_id cfg, new_ip_message ip, False)]"
    using check_ip_changed(2) [OF assms adm, of False] by (simp add: main_loop_iteration_eq)
  show "last_ip (snd (main_loop_iteration cfg (fetch, True) st)) = Some ip"
    using check_ip_changed(1) [OF assms adm, of True] by (simp add: main_loop_iteration_eq)
  fix envs :: "(http_outcome \<times> bool) list" and ok'
  assume fails: "\<forall>env \<in> set envs. fst (get_ip (fst env) initial_state) = None"
  let ?st2 = "snd (main_loop cfg envs ?st1)"
  have st2: "last_ip ?st2 = last_ip st" "sends (trace ?st2) = sends (trace ?st1)"
    using main_loop_failed_fetches [OF fails, of cfg ?st1] keep by simp_all
  have f2: "fst (get_ip fetch ?st2) = Some ip"
    using assms(1) get_ip_result [of fetch ?st2 st] by simp
  have n2: "last_ip ?st2 \<noteq> Some ip" using st2(1) assms(2) by simp
  have "sends (trace (snd (main_loop_iteration cfg (fetch, ok') ?st2)))
          = sends (trace ?st2) @ [(admin_chat_id cfg, new_ip_message ip, ok')]"
    using check_ip_changed(2) [OF f2 n2 adm, of ok'] by (simp add: main_loop_iteration_eq)
  then show "sends (trace (snd (main_loop cfg (envs @ [(fetch, ok')]) ?st1)))
          = sends (trace st) @ [(admin_chat_id cfg, new_ip_message ip, False),
                                (admin_chat_id cfg, new_ip_message ip, ok')]"
    using st2(2) first by (simp add: main_loop_append)
next
  assume "admin_chat_id cfg = PNone"
  then show "last_ip (snd (main_loop_iteration cfg (fetch, ok) st)) = Some ip"
    using check_ip_changed_no_admin(1) [OF assms, of cfg ok] by (simp add: main_loop_iteration_eq)
qed

theorem failed_send_keeps_last_ip_witness:
  "fst (get_ip (HttpResponse 200 (Some ''1.2.3.4'')) initial_state) = Some ''1.2.3.4''
   \<and> last_ip initial_state \<noteq> Some ''1.2.3.4''
   \<and> admin_chat_id example_config \<noteq> PNone
   \<and> fst (get_ip HttpRaises initial_state) = None
   \<and> last_ip (snd (main_loop_iteration example_config (HttpResponse 200 (Some ''1.2.3.4''), False) initial_state)) = None
   \<and> sends (trace (snd (main_loop example_config ([(HttpRaises, True)] @ [(HttpResponse 200 (Some ''1.2.3.4''), True)])
               (snd (main_loop_iteration example_config (HttpResponse 200 (Some ''1.2.3.4''), False) initial_state)))))
       = [(PInt 42, new_ip_message ''1.2.3.4'', False), (PInt 42, new_ip_message ''1.2.3.4'', True)]
   \<and> last_ip (snd (main_loop_iteration example_config (HttpResponse 200 (Some ''1.2.3.4''), True) initial_state)) = Some ''1.2.3.4''
   \<and> admin_chat_id (example_config\<lparr>admin_chat_id := PNone\<rparr>) = PNone
   \<and> last_ip (snd (main_loop_iteration (example_config\<lparr>admin_chat_id := PNone\<rparr>)
         (HttpResponse 200 (Some ''1.2.3.4''), False) initial_state)) = Some ''1.2.3.4''"
proof -
  have h1: "fst (get_ip (HttpResponse 200 (Some ''1.2.3.4'')) initial_state) = Some ''1.2.3.4''"
    by (simp add: get_ip_def Let_def)
  have h2: "last_ip initial_state \<noteq> Some ''1.2.3.4''" by (simp add: initial_state_def)
  have h3: "admin_chat_id example_config \<noteq> PNone" by (simp add: example_config_def)
  have h4': "fst (get_ip HttpRaises initial_state) = None"
    by (simp add: get_ip_def Let_def)
  then have h4: "\<forall>env \<in> set [(HttpRaises, True)]. fst (get_ip (fst env) initial_state) = None"
    by simp
  have h5: "admin_chat_id (example_config\<lparr>admin_chat_id := PNone\<rparr>) = PNone" by simp
  have i: "last_ip initial_state = None" "sends (trace initial_state) = []" by (simp_all add: initial_state_def)
  have e: "admin_chat_id example_config = PInt 42" by (simp add: example_config_def)
  note a = failed_send_keeps_last_ip [OF h1 h2, of example_config]
  note b = failed_send_keeps_last_ip [OF h1 h2, of "example_config\<lparr>admin_chat_id := PNone\<rparr>" False]
  from a h3 have a1: "last_ip (snd (main_loop_iteration example_config (HttpResponse 200 (Some ''1.2.3.4''), False) initial_state)) = None"
    and a3: "last_ip (snd (main_loop_iteration example_config (HttpResponse 200 (Some ''1.2.3.4''), True) initial_state)) = Some ''1.2.3.4''"
    using i by simp_all
  from a h3 h4 have a2: "sends (trace (snd (main_loop example_config ([(HttpRaises, True)] @ [(HttpResponse 200 (Some ''1.2.3.4''), True)])
               (snd (main_loop_iteration example_config (HttpResponse 200 (Some ''1.2.3.4''), False) initial_state)))))
       = [(PInt 42, new_ip_message ''1.2.3.4'', False), (PInt 42, new_ip_message ''1.2.3.4'', True)]"
    using i e by (metis append_Nil)
  from b h5 have b1: "last_ip (snd (main_loop_iteration (example_config\<lparr>admin_chat_id := PNone\<rparr>)
         (HttpResponse 200 (Some ''1.2.3.4''), False) initial_state)) = Some ''1.2.3.4''"
    by blast
  show ?thesis using h1 h2 h3 h4' h5 a1 a2 a3 b1 by blast
qed

text \<open>
  Claim C5. On a pass of the main loop whose fetch fails (get_ip returns None), last_ip
  is unchanged and bot.sendMessage is not called.
\<close>

theorem fetch_failure_leaves_state:
  assumes "fst (get_ip fetch st) = None"
  shows "last_ip (snd (main_loop_iteration cfg (fetch, ok) st)) = last_ip st
       \<and> sends (trace (snd (main_loop_iteration cfg (fetch, ok) st))) = sends (trace st)"
  using check_ip_fetch_failed [OF assms] by (simp add: main_loop_iteration_eq)

theorem fetch_failure_leaves_state_witness:
  "fst (get_ip (HttpResponse 503 (Some ''busy'')) \<lparr>last_ip = Some ''1.2.3.4'', trace = []\<rparr>) = None
   \<and> last_ip (snd (main_loop_iteration \<lparr>bot_token = PStr ''t'', admin_username = PStr ''alice'', admin_chat_id = PInt 42\<rparr>
        (HttpResponse 503 (Some ''busy''), True) \<lparr>last_ip = Some ''1.2.3.4'', trace = []\<rparr>)) = Some ''1.2.3.4''
   \<and> sends (trace (snd (main_loop_iteration \<lparr>bot_token = PStr ''t'', admin_username = PStr ''alice'', admin_chat_id = PInt 42\<rparr>
        (HttpResponse 503 (Some ''busy''), True) \<lparr>last_ip = Some ''1.2.3.4'', trace = []\<rparr>))) = []"
proof -
  have h: "fst (get_ip (HttpResponse 503 (Some ''busy'')) \<lparr>last_ip = Some ''1.2.3.4'', trace = []\<rparr>) = None"
    by (simp add: get_ip_def Let_def)
  show ?thesis
    using h fetch_failure_leaves_state [OF h, of "\<lparr>bot_token = PStr ''t'', admin_username = PStr ''alice'', admin_chat_id = PInt 42\<rparr>" True]
    by simp
qed

subsection \<open>The message handler\<close>

lemma send_message_last_ip: "last_ip (snd (send_message c m ok st)) = last_ip st"
  by (simp add: send_message_def emit_def)

lemma send_message_sends: "sends (trace (snd (send_message c m ok st))) = sends (trace st) @ [(c, m, ok)]"
  by (simp add: send_message_def emit_def sends_append)

lemma send_message_fetches: "fetches (trace (snd (send_message c m ok st))) = fetches (trace st)"
  by (simp add: send_message_def emit_def fetches_append)

lemma telepot_handle_reply_last_ip:
  "last_ip (snd (telepot_handle_reply cfg fetch ok content_type chat_type chat_id chat_username st)) = last_ip st"
  using get_ip_last_ip [of fetch st]
  by (auto simp: telepot_handle_reply_def send_message_last_ip emit_def split: prod.splits option.splits)

text \<open>
  Every inbound message makes the body of the handler raise before it sends or fetches
  anything: glance or the lookup of the username raises KeyError, or else msg.text raises
  AttributeError. The handler's except clause logs the exception and returns.
\<close>

lemma telepot_handle_body_raises:
  "\<exists>e. telepot_handle_body cfg fetch ok msg st = (Some e, st)"
  by (simp add: telepot_handle_body_def getattr_text_def split: sum.splits option.splits prod.splits)

lemma telepot_handle_last_ip: "last_ip (snd (telepot_handle cfg fetch ok msg st)) = last_ip st"
  using telepot_handle_body_raises [of cfg fetch ok msg st]
  by (auto simp: telepot_handle_def try_except_def emit_def)

lemma telepot_handle_sends: "sends (trace (snd (telepot_handle cfg fetch ok msg st))) = sends (trace st)"
  using telepot_handle_body_raises [of cfg fetch ok msg st]
  by (auto simp: telepot_handle_def try_except_def emit_def sends_append)

lemma telepot_handle_fetches: "fetches (trace (snd (telepot_handle cfg fetch ok msg st))) = fetches (trace st)"
  using telepot_handle_body_raises [of cfg fetch ok msg st]
  by (auto simp: telepot_handle_def try_except_def emit_def fetches_append)

text \<open>
  What the branch of lines 264 to 271 does once it is reached and the fetch succeeds:
  nothing is raised, one fetch is performed, and the text IP: `value`. (the value between
  backticks) is sent to the chat id of the message.
\<close>

lemma authorized_reply:
  assumes "content_type = ''text''" and "chat_type = ''private''"
    and "str_eq chat_username (admin_username cfg)" and "int_eq chat_id (admin_chat_id cfg)"
    and "fst (get_ip fetch st) = Some ip"
  shows "fst (telepot_handle_reply cfg fetch ok content_type chat_type chat_id chat_username st) = None
       \<and> fetches (trace (snd (telepot_handle_reply cfg fetch ok content_type chat_type chat_id chat_username st)))
           = Suc (fetches (trace st))
       \<and> sends (trace (snd (telepot_handle_reply cfg fetch ok content_type chat_type chat_id chat_username st)))
           = sends (trace st) @ [(PInt chat_id, ''IP: `'' @ ip @ ''`.'', ok)]"
  using assms get_ip_fetches [of fetch st] get_ip_sends [of fetch st]
  by (auto simp: telepot_handle_reply_def send_message_sends send_message_fetches split: prod.splits option.splits)

text \<open>
  Claim C1, on the code: the admin's own private text message (user alice, chat 42, as
  configured) while the fetch would succeed with 1.2.3.4 and the send would succeed. The
  handler raises AttributeError at msg.text (line 261), before the authorisation test:
  its whole trace is the logged exception and the error record, so no fetch is made and
  no reply is sent.
\<close>

theorem authorized_message_gets_no_reply:
  "trace (snd (telepot_handle example_config (HttpResponse 200 (Some ''1.2.3.4'')) True example_message initial_state))
     = [LogException AttributeError,
        Log ERROR [Lit ''An unexpected exception occurred while responding to a chat callback.'']]
   \<and> fetches (trace (snd (telepot_handle example_config (HttpResponse 200 (Some ''1.2.3.4'')) True example_message initial_state))) = 0
   \<and> sends (trace (snd (telepot_handle example_config (HttpResponse 200 (Some ''1.2.3.4'')) True example_message initial_state))) = []"
  by (simp add: telepot_handle_def telepot_handle_body_def glance_def getattr_text_def try_except_def
        emit_def initial_state_def example_message_def)

text \<open>
  What the else branch of lines 273 to 277 does once it is reached: it logs the warning
  with the username and the chat id, sends the fixed message to the chat id of the
  message, and fetches nothing.
\<close>

lemma unauthorized_reply:
  assumes "\<not> (content_type = ''text'' \<and> chat_type = ''private''
              \<and> str_eq chat_username (admin_username cfg) \<and> int_eq chat_id (admin_chat_id cfg))"
  shows "telepot_handle_reply cfg fetch ok content_type chat_type chat_id chat_username st
         = (None, snd (send_message (PInt chat_id) ''You are not authorized to interact with this bot.'' ok
                 (emit [Log WARNING [Lit ''Received message from unauthorized user: `'', Fmt (PStr chat_username),
                                     Lit ''` (chat_id: `'', Fmt (PInt chat_id), Lit ''`).'']] st)))"
    and "sends (trace (snd (telepot_handle_reply cfg fetch ok content_type chat_type chat_id chat_username st)))
         = sends (trace st) @ [(PInt chat_id, ''You are not authorized to interact with this bot.'', ok)]"
    and "fetches (trace (snd (telepot_handle_reply cfg fetch ok content_type chat_type chat_id chat_username st)))
         = fetches (trace st)"
  using assms
  by (auto simp: telepot_handle_reply_def send_message_sends send_message_fetches emit_def sends_append fetches_append)

text \<open>
  Claim C2, on the code: a private text message from the user mallory in chat 99, who is
  not the admin, whatever the fetch and the send would do. The handler raises
  AttributeError at msg.text (line 261), before the authorisation test: its whole trace
  is the logged exception and the error record, so no message is sent to chat 99 and no
  warning is logged. A message whose sender has no username ends the same way with KeyError.
\<close>

theorem unauthorized_message_gets_no_reply:
  "trace (snd (telepot_handle example_config fetch ok
            (example_message\<lparr>msg_chat_id := 99, msg_from_username := Some ''mallory''\<rparr>) initial_state))
     = [LogException AttributeError,
        Log ERROR [Lit ''An unexpected exception occurred while responding to a chat callback.'']]
   \<and> sends (trace (snd (telepot_handle example_config fetch ok
            (example_message\<lparr>msg_chat_id := 99, msg_from_username := Some ''mallory''\<rparr>) initial_state))) = []
   \<and> trace (snd (telepot_handle example_config fetch ok
            (example_message\<lparr>msg_chat_id := 99, msg_from_username := None\<rparr>) initial_state))
     = [LogException KeyError,
        Log ERROR [Lit ''An unexpected exception occurred while responding to a chat callback.'']]"
  by (simp add: telepot_handle_def telepot_handle_body_def glance_def getattr_text_def try_except_def
        emit_def initial_state_def example_message_def)

text \<open>
  What the branch of line 268 does once it is reached: the call of send_message with a
  single argument raises TypeError, and nothing is sent.
\<close>

lemma authorized_fetch_failure_raises:
  assumes "content_type = ''text''" and "chat_type = ''private''"
    and "str_eq chat_username (admin_username cfg)" and "int_eq chat_id (admin_chat_id cfg)"
    and "fst (get_ip fetch st) = None"
  shows "fst (telepot_handle_reply cfg fetch ok content_type chat_type chat_id chat_username st) = Some TypeError"
    and "sends (trace (snd (telepot_handle_reply cfg fetch ok content_type chat_type chat_id chat_username st)))
         = sends (trace st)"
  using assms get_ip_sends [of fetch st]
  by (auto simp: telepot_handle_reply_def split: prod.splits option.splits)

text \<open>
  Claim C6, on the code: the admin's private text message while the fetch fails. The
  handler raises AttributeError at msg.text and sends nothing; and the if statement of
  lines 263 to 277, run on the same message, raises TypeError at line 268 and sends
  nothing either.
\<close>

theorem failure_notice_not_sent:
  "trace (snd (telepot_handle example_config HttpRaises ok example_message initial_state))
     = [LogException AttributeError,
        Log ERROR [Lit ''An unexpected exception occurred while responding to a chat callback.'']]
   \<and> sends (trace (snd (telepot_handle example_config HttpRaises ok example_message initial_state))) = []
   \<and> fst (telepot_handle_reply example_config HttpRaises ok ''text'' ''private'' 42 ''alice'' initial_state)
       = Some TypeError
   \<and> sends (trace (snd (telepot_handle_reply example_config HttpRaises ok ''text'' ''private'' 42 ''alice''
        initial_state))) = []"
  by (simp add: telepot_handle_def telepot_handle_body_def glance_def getattr_text_def try_except_def
        telepot_handle_reply_def get_ip_def emit_def Let_def
        initial_state_def example_config_def example_message_def)

subsection \<open>Start-up\<close>

lemma write_json_fails: "fst (write_json json fs path data) = False"
  by (simp add: write_json_def json_dump_def split: sum.splits)

lemma startup_without_file:
  assumes "\<not> file_exists fs CONFIGURATION_FILE_PATH"
  shows "fst (startup json fs) = Exit 0"
    and "nodes (fst (snd (startup json fs))) CONFIGURATION_FILE_PATH = Some (RegularFile r w content)
         \<Longrightarrow> content = [] \<or> fst (snd (startup json fs)) = fs"
  using assms
  by (auto simp: startup_def write_json_def open_write_def json_dump_def
           split: sum.splits option.splits node.splits if_splits prod.splits)

text \<open>
  Claim C7, on the code: start-up in a writable directory without configuration.json,
  for any json module. The process exits with code 0, and the file it leaves at the
  configuration path is empty: open(path, "w") created it, json.dump(file, data) raised
  TypeError before writing, and write_json caught and logged the exception.
\<close>

theorem missing_configuration_leaves_empty_file:
  "startup json \<lparr>nodes = Map.empty, dir_writable = True\<rparr>
     = (Exit 0,
        \<lparr>nodes = [CONFIGURATION_FILE_PATH \<mapsto> RegularFile True True []], dir_writable = True\<rparr>,
        [Log WARNING [Lit ''No configuration file found, creating one...''],
         LogException TypeError,
         Log ERROR [Lit ''Failed to write JSON data to `'', Fmt (PStr ''configuration.json''), Lit ''`''],
         Print ''Please edit the configuration file and re-run this script.''])"
  by (simp add: startup_def file_exists_def write_json_def open_write_def json_dump_def
        CONFIGURATION_FILE_PATH_def)

lemma read_field_None:
  assumes "(\<exists>e. subscript configuration key = Inl e) \<or> subscript configuration key = Inr PNone"
  shows "fst (read_field configuration key dictionary) = PNone"
  using assms by (auto simp: read_field_def)

lemma startup_filesystem_kept:
  assumes "file_exists fs CONFIGURATION_FILE_PATH"
  shows "fst (snd (startup json fs)) = fs"
  using assms by (simp add: startup_def split: prod.splits)

lemma startup_field_None:
  assumes "file_exists fs CONFIGURATION_FILE_PATH"
    and "key \<in> {''bot_token'', ''admin_username'', ''admin_chat_id''}"
    and "fst (read_field (fst (read_json json fs CONFIGURATION_FILE_PATH)) key d) = PNone"
  shows "fst (startup json fs) = Exit 1"
proof -
  have k: "fst (read_field (fst (read_json json fs CONFIGURATION_FILE_PATH)) key d')
         = fst (read_field (fst (read_json json fs CONFIGURATION_FILE_PATH)) key d)" for d'
    by (simp add: read_field_def)
  show ?thesis
    using assms(1,2,3) k [of "fst (read_json json fs CONFIGURATION_FILE_PATH)"]
    by (auto simp: startup_def split: prod.splits)
qed

lemma read_json_loaded:
  assumes "nodes fs path = Some (RegularFile True writable content)"
    and "load json content = Inr configuration"
  shows "fst (read_json json fs path) = configuration"
  using assms by (simp add: read_json_def open_read_def)

text \<open>
  Claim C8. If configuration.json is a readable regular file that the json module parses,
  and for one of the keys bot_token, admin_username, admin_chat_id the lookup
  configuration[key] raises (the key is missing, or the value parsed is not a dict) or
  gives None, then the process exits with code 1 and the file system is unchanged.
\<close>

theorem incomplete_configuration_exits_1:
  assumes "nodes fs CONFIGURATION_FILE_PATH = Some (RegularFile True writable content)"
    and "load json content = Inr configuration"
    and "key \<in> {''bot_token'', ''admin_username'', ''admin_chat_id''}"
    and "(\<exists>e. subscript configuration key = Inl e) \<or> subscript configuration key = Inr PNone"
  shows "fst (startup json fs) = Exit 1 \<and> fst (snd (startup json fs)) = fs"
proof -
  have ex: "file_exists fs CONFIGURATION_FILE_PATH"
    using assms(1) by (simp add: file_exists_def)
  have "fst (read_field (fst (read_json json fs CONFIGURATION_FILE_PATH)) key configuration) = PNone"
    using read_field_None [OF assms(4)] read_json_loaded [OF assms(1,2)] by simp
  then have "fst (startup json fs) = Exit 1"
    using startup_field_None [OF ex assms(3)] by simp
  then show ?thesis using startup_filesystem_kept [OF ex] by simp
qed

theorem incomplete_configuration_exits_1_witness:
  "nodes example_files CONFIGURATION_FILE_PATH
     = Some (RegularFile True True ''{\"bot_token\": \"123:abc\", \"admin_chat_id\": 42}'')
   \<and> load example_json ''{\"bot_token\": \"123:abc\", \"admin_chat_id\": 42}''
     = Inr (PDict [(''bot_token'', PStr ''123:abc''), (''admin_chat_id'', PInt 42)])
   \<and> subscript (PDict [(''bot_token'', PStr ''123:abc''), (''admin_chat_id'', PInt 42)]) ''admin_username''
     = Inl KeyError
   \<and> fst (startup example_json example_files) = Exit 1
   \<and> fst (snd (startup example_json example_files)) = example_files"
proof -
  have h1: "nodes example_files CONFIGURATION_FILE_PATH
     = Some (RegularFile True True ''{\"bot_token\": \"123:abc\", \"admin_chat_id\": 42}'')"
    by (simp add: example_files_def)
  have h2: "load example_json ''{\"bot_token\": \"123:abc\", \"admin_chat_id\": 42}''
     = Inr (PDict [(''bot_token'', PStr ''123:abc''), (''admin_chat_id'', PInt 42)])"
    by (simp add: example_json_def)
  have h3: "''admin_username'' \<in> {''bot_token'', ''admin_username'', ''admin_chat_id''}" by simp
  have h4': "subscript (PDict [(''bot_token'', PStr ''123:abc''), (''admin_chat_id'', PInt 42)]) ''admin_username''
     = Inl KeyError" by simp
  then have h4: "(\<exists>e. subscript (PDict [(''bot_token'', PStr ''123:abc''), (''admin_chat_id'', PInt 42)]) ''admin_username'' = Inl e)
     \<or> subscript (PDict [(''bot_token'', PStr ''123:abc''), (''admin_chat_id'', PInt 42)]) ''admin_username'' = Inr PNone"
    by blast
  show ?thesis
    using h1 h2 h4' incomplete_configuration_exits_1 [OF h1 h2 h3 h4] by blast
qed

text \<open>
  Conversely, when start-up goes on, each of the three fields is the entry of its key in
  the parsed configuration, and none is None.
\<close>

lemma startup_configured:
  assumes "fst (startup json fs) = Configured cfg"
  shows "bot_token cfg \<noteq> PNone \<and> admin_username cfg \<noteq> PNone \<and> admin_chat_id cfg \<noteq> PNone
       \<and> subscript (fst (read_json json fs CONFIGURATION_FILE_PATH)) ''bot_token'' = Inr (bot_token cfg)
       \<and> subscript (fst (read_json json fs CONFIGURATION_FILE_PATH)) ''admin_username'' = Inr (admin_username cfg)
       \<and> subscript (fst (read_json json fs CONFIGURATION_FILE_PATH)) ''admin_chat_id'' = Inr (admin_chat_id cfg)"
  using assms
  by (auto simp: startup_def read_field_def split: if_splits prod.splits sum.splits)

subsection \<open>Exceptions\<close>

lemma main_loop_fetches: "fetches (trace (snd (main_loop cfg envs st))) = fetches (trace st) + length envs"
proof (induction envs arbitrary: st)
  case Nil
  then show ?case by simp
next
  case (Cons env envs)
  have "fetches (trace (snd (main_loop_iteration cfg env st))) = Suc (fetches (trace st))"
    using get_ip_fetches [of "fst env" st]
    by (auto simp: main_loop_iteration_eq check_ip_def send_message_def emit_def fetches_append Let_def
             split: prod.splits option.splits)
  then show ?case using Cons.IH by simp
qed

lemma telepot_handle_no_raise: "fst (telepot_handle cfg fetch ok msg st) = None"
  by (simp add: telepot_handle_def try_except_def split: prod.splits option.splits)

lemma step_no_raise: "fst (step cfg a st) = None"
  by (cases a) (simp_all add: telepot_handle_no_raise main_loop_iteration_eq)

lemma run_Cons: "run cfg (a # as) st = run cfg as (snd (step cfg a st))"
  using step_no_raise [of cfg a st] by (cases "step cfg a st") simp

declare run.simps(2) [simp del]
declare run_Cons [simp]

lemma run_no_raise: "fst (run cfg as st) = None"
  by (induction as arbitrary: st) simp_all

lemma run_append: "run cfg (xs @ ys) st = run cfg ys (snd (run cfg xs st))"
  by (induction xs arbitrary: st) simp_all

lemma main_loop_try_no_raise: "fst (main_loop_try check st) = None"
  by (simp add: main_loop_try_def try_except_def split: prod.splits option.splits)

lemma main_loop_of_Cons:
  "main_loop_of (check # checks) st = main_loop_of checks (snd (main_loop_try check st))"
  using main_loop_try_no_raise [of check st] by (cases "main_loop_try check st") simp

lemma main_loop_of_no_raise: "fst (main_loop_of checks st) = None"
  by (induction checks arbitrary: st) (simp_all add: main_loop_of_Cons del: main_loop_of.simps(2))

lemma main_loop_iteration_try:
  "main_loop_iteration cfg env st = main_loop_try (check_ip cfg (fst env) (snd env)) st"
  by (simp add: main_loop_iteration_def main_loop_try_def)

lemma main_loop_is_main_loop_of:
  "main_loop cfg envs st = main_loop_of (map (\<lambda>env. check_ip cfg (fst env) (snd env)) envs) st"
  by (induction envs arbitrary: st)
     (simp_all add: main_loop_of_Cons main_loop_iteration_try del: main_loop_of.simps(2))

lemma main_loop_of_caught:
  assumes "check st = (Some e, st1)"
  shows "main_loop_of (check # checks) st
         = main_loop_of checks
             (emit [LogException e,
                    Log ERROR [Lit ''An unexpected exception occurred while checking the public IP address of the host machine.'']] st1)"
  using assms by (simp add: main_loop_of_Cons main_loop_try_def try_except_def del: main_loop_of.simps(2))

lemma tick_request_exception_logged:
  "trace (snd (main_loop_iteration cfg (HttpRaises, ok) st))
     = trace st @ [HttpGet, LogException RequestException,
         Log ERROR [Lit ''An unexpected exception occurred while trying to obtain the public IP address of the host machine.''],
         Log ERROR [Lit ''Failed to update IP address.'']]"
  by (simp add: main_loop_iteration_eq check_ip_def get_ip_def emit_def Let_def)

lemma tick_send_exception_logged:
  assumes "last_ip st \<noteq> Some ip" and "admin_chat_id cfg \<noteq> PNone"
  shows "trace (snd (main_loop_iteration cfg (HttpResponse 200 (Some ip), False) st))
     = trace st @ [HttpGet,
         Log INFO [Lit ''Response from `https://api.ipify.org`: `'', Fmt (PStr ip), Lit ''`.''],
         Log INFO [Lit (new_ip_message ip)],
         SendMessage (admin_chat_id cfg) (new_ip_message ip) False,
         LogException TelegramError,
         Log ERROR [Lit ''An unexpected exception occurred while trying to send a message.'']]"
  using assms
  by (auto simp: main_loop_iteration_eq check_ip_def get_ip_def send_message_def emit_def Let_def)

text \<open>
  Claim C9. No exception leaves the handler: an exception raised in its body is caught
  and logged with the error record, and after any run a further inbound message is
  handled from the state the run left. The try statement of the main loop catches and
  logs, with its own error record, whatever the call in its body raises, and the loop
  then makes its next pass; so no exception leaves a pass, the loop or a run, whatever
  the calls raise, and after any run a further pass is made. Each pass performs its
  fetch. Within a pass, the exception of a failing request is logged by get_ip and the
  exception of a failing send is logged by send_message, and the pass ends without raising.
\<close>

theorem exceptions_are_caught:
  "fst (telepot_handle cfg fetch ok msg st) = None
   \<and> (telepot_handle_body cfg fetch ok msg st = (Some e, st1) \<longrightarrow>
        telepot_handle cfg fetch ok msg st
          = (None, emit [LogException e,
                Log ERROR [Lit ''An unexpected exception occurred while responding to a chat callback.'']] st1))
   \<and> run cfg (as @ [Inbound fetch ok msg]) st = telepot_handle cfg fetch ok msg (snd (run cfg as st))
   \<and> main_loop_iteration cfg env st = main_loop_try (check_ip cfg (fst env) (snd env)) st
   \<and> main_loop cfg envs st = main_loop_of (map (\<lambda>env. check_ip cfg (fst env) (snd env)) envs) st
   \<and> (check st = (Some e', st2) \<longrightarrow>
        main_loop_try check st
          = (None, emit [LogException e',
                Log ERROR [Lit ''An unexpected exception occurred while checking the public IP address of the host machine.'']] st2)
        \<and> main_loop_of (check # checks) st
          = main_loop_of checks (emit [LogException e',
                Log ERROR [Lit ''An unexpected exception occurred while checking the public IP address of the host machine.'']] st2))
   \<and> fst (main_loop_try check st) = None
   \<and> fst (main_loop_of checks st) = None
   \<and> fst (main_loop_iteration cfg env st) = None
   \<and> fst (main_loop cfg envs st) = None
   \<and> fst (run cfg as st) = None
   \<and> run cfg (as @ [Tick fetch ok]) st = main_loop_iteration cfg (fetch, ok) (snd (run cfg as st))
   \<and> fetches (trace (snd (main_loop cfg envs st))) = fetches (trace st) + length envs
   \<and> trace (snd (main_loop_iteration cfg (HttpRaises, ok) st))
       = trace st @ [HttpGet, LogException RequestException,
           Log ERROR [Lit ''An unexpected exception occurred while trying to obtain the public IP address of the host machine.''],
           Log ERROR [Lit ''Failed to update IP address.'']]
   \<and> (last_ip st \<noteq> Some ip \<and> admin_chat_id cfg \<noteq> PNone \<longrightarrow>
        trace (snd (main_loop_iteration cfg (HttpResponse 200 (Some ip), False) st))
          = trace st @ [HttpGet,
              Log INFO [Lit ''Response from `https://api.ipify.org`: `'', Fmt (PStr ip), Lit ''`.''],
              Log INFO [Lit (new_ip_message ip)],
              SendMessage (admin_chat_id cfg) (new_ip_message ip) False,
              LogException TelegramError,
              Log ERROR [Lit ''An unexpected exception occurred while trying to send a message.'']])"
proof -
  have last: "run cfg (as @ [a]) st = step cfg a (snd (run cfg as st))" for a
    using step_no_raise [of cfg a "snd (run cfg as st)"]
    by (cases "step cfg a (snd (run cfg as st))") (simp add: run_append)
  have caught: "telepot_handle_body cfg fetch ok msg st = (Some e, st1) \<longrightarrow>
        telepot_handle cfg fetch ok msg st
          = (None, emit [LogException e,
                Log ERROR [Lit ''An unexpected exception occurred while responding to a chat callback.'']] st1)"
    by (simp add: telepot_handle_def try_except_def)
  have inbound: "run cfg (as @ [Inbound fetch ok msg]) st = telepot_handle cfg fetch ok msg (snd (run cfg as st))"
    using last [of "Inbound fetch ok msg"] by simp
  have tick: "run cfg (as @ [Tick fetch ok]) st = main_loop_iteration cfg (fetch, ok) (snd (run cfg as st))"
    using last [of "Tick fetch ok"] by simp
  have pass: "fst (main_loop_iteration cfg env st) = None"
    by (simp add: main_loop_iteration_eq)
  have loop_caught: "check st = (Some e', st2) \<longrightarrow>
        main_loop_try check st
          = (None, emit [LogException e',
                Log ERROR [Lit ''An unexpected exception occurred while checking the public IP address of the host machine.'']] st2)
        \<and> main_loop_of (check # checks) st
          = main_loop_of checks (emit [LogException e',
                Log ERROR [Lit ''An unexpected exception occurred while checking the public IP address of the host machine.'']] st2)"
    using main_loop_of_caught [of check st e' st2 checks]
    by (simp add: main_loop_try_def try_except_def)
  have send: "last_ip st \<noteq> Some ip \<and> admin_chat_id cfg \<noteq> PNone \<longrightarrow>
        trace (snd (main_loop_iteration cfg (HttpResponse 200 (Some ip), False) st))
          = trace st @ [HttpGet,
              Log INFO [Lit ''Response from `https://api.ipify.org`: `'', Fmt (PStr ip), Lit ''`.''],
              Log INFO [Lit (new_ip_message ip)],
              SendMessage (admin_chat_id cfg) (new_ip_message ip) False,
              LogException TelegramError,
              Log ERROR [Lit ''An unexpected exception occurred while trying to send a message.'']]"
    using tick_send_exception_logged [of st ip cfg] by blast
  show ?thesis
    using telepot_handle_no_raise [of cfg fetch ok msg st] caught inbound
      main_loop_iteration_try [of cfg env st] main_loop_is_main_loop_of [of cfg envs st]
      loop_caught main_loop_try_no_raise [of check st] main_loop_of_no_raise [of checks st]
      pass main_loop_no_raise [of cfg envs st] run_no_raise [of cfg as st] tick
      main_loop_fetches [of cfg envs st] tick_request_exception_logged [of cfg ok st] send
    by blast
qed

theorem exceptions_are_caught_witness:
  "telepot_handle_body example_config HttpRaises True example_message initial_state
     = (Some AttributeError, initial_state)
   \<and> telepot_handle example_config HttpRaises True example_message initial_state
     = (None, emit [LogException AttributeError,
             Log ERROR [Lit ''An unexpected exception occurred while responding to a chat callback.'']] initial_state)
   \<and> main_loop_of [\<lambda>st. (Some TypeError, st), check_ip example_config HttpRaises True] initial_state
     = (None, \<lparr>last_ip = None,
          trace = [LogException TypeError,
                   Log ERROR [Lit ''An unexpected exception occurred while checking the public IP address of the host machine.''],
                   HttpGet, LogException RequestException,
                   Log ERROR [Lit ''An unexpected exception occurred while trying to obtain the public IP address of the host machine.''],
                   Log ERROR [Lit ''Failed to update IP address.'']]\<rparr>)
   \<and> last_ip initial_state \<noteq> Some ''1.2.3.4''
   \<and> admin_chat_id example_config \<noteq> PNone
   \<and> trace (snd (main_loop_iteration example_config (HttpResponse 200 (Some ''1.2.3.4''), False) initial_state))
     = [HttpGet,
        Log INFO [Lit ''Response from `https://api.ipify.org`: `'', Fmt (PStr ''1.2.3.4''), Lit ''`.''],
        Log INFO [Lit ''New public IP address detected: `1.2.3.4`.''],
        SendMessage (PInt 42) ''New public IP address detected: `1.2.3.4`.'' False,
        LogException TelegramError,
        Log ERROR [Lit ''An unexpected exception occurred while trying to send a message.'']]"
proof -
  have h1: "telepot_handle_body example_config HttpRaises True example_message initial_state
     = (Some AttributeError, initial_state)"
    by (simp add: telepot_handle_body_def glance_def getattr_text_def example_message_def)
  have h2: "(\<lambda>st. (Some TypeError, st)) initial_state = (Some TypeError, initial_state)" by simp
  have h3: "last_ip initial_state \<noteq> Some ''1.2.3.4''" by (simp add: initial_state_def)
  have h4: "admin_chat_id example_config \<noteq> PNone" by (simp add: example_config_def)
  note t = exceptions_are_caught [where cfg = example_config and fetch = HttpRaises and ok = True
      and msg = example_message and st = initial_state and e = AttributeError and ?st1.0 = initial_state
      and check = "\<lambda>st. (Some TypeError, st)" and e' = TypeError and ?st2.0 = initial_state
      and checks = "[check_ip example_config HttpRaises True]" and ip = "''1.2.3.4''"]
  from t h1 have a: "telepot_handle example_config HttpRaises True example_message initial_state
     = (None, emit [LogException AttributeError,
             Log ERROR [Lit ''An unexpected exception occurred while responding to a chat callback.'']] initial_state)"
    by blast
  from t h2 have "main_loop_of [\<lambda>st. (Some TypeError, st), check_ip example_config HttpRaises True] initial_state
     = main_loop_of [check_ip example_config HttpRaises True]
         (emit [LogException TypeError,
                Log ERROR [Lit ''An unexpected exception occurred while checking the public IP address of the host machine.'']] initial_state)"
    by blast
  then have b: "main_loop_of [\<lambda>st. (Some TypeError, st), check_ip example_config HttpRaises True] initial_state
     = (None, \<lparr>last_ip = None,
          trace = [LogException TypeError,
                   Log ERROR [Lit ''An unexpected exception occurred while checking the public IP address of the host machine.''],
                   HttpGet, LogException RequestException,
                   Log ERROR [Lit ''An unexpected exception occurred while trying to obtain the public IP address of the host machine.''],
                   Log ERROR [Lit ''Failed to update IP address.'']]\<rparr>)"
    by (simp add: main_loop_try_def try_except_def check_ip_def get_ip_def emit_def Let_def initial_state_def)
  from t h3 h4 have "trace (snd (main_loop_iteration example_config (HttpResponse 200 (Some ''1.2.3.4''), False) initial_state))
     = trace initial_state @ [HttpGet,
        Log INFO [Lit ''Response from `https://api.ipify.org`: `'', Fmt (PStr ''1.2.3.4''), Lit ''`.''],
        Log INFO [Lit (new_ip_message ''1.2.3.4'')],
        SendMessage (admin_chat_id example_config) (new_ip_message ''1.2.3.4'') False,
        LogException TelegramError,
        Log ERROR [Lit ''An unexpected exception occurred while trying to send a message.'']]"
    by blast
  then have c: "trace (snd (main_loop_iteration example_config (HttpResponse 200 (Some ''1.2.3.4''), False) initial_state))
     = [HttpGet,
        Log INFO [Lit ''Response from `https://api.ipify.org`: `'', Fmt (PStr ''1.2.3.4''), Lit ''`.''],
        Log INFO [Lit ''New public IP address detected: `1.2.3.4`.''],
        SendMessage (PInt 42) ''New public IP address detected: `1.2.3.4`.'' False,
        LogException TelegramError,
        Log ERROR [Lit ''An unexpected exception occurred while trying to send a message.'']]"
    by (simp add: initial_state_def example_config_def new_ip_message_def)
  show ?thesis using h1 a b h3 h4 c by blast
qed

subsection \<open>The variable last_ip\<close>

lemma check_ip_last_ip:
  "last_ip (snd (check_ip cfg fetch ok st)) = last_ip st
   \<or> (\<exists>ip. fst (get_ip fetch st) = Some ip \<and> last_ip (snd (check_ip cfg fetch ok st)) = Some ip)"
  using get_ip_last_ip [of fetch st]
  by (auto simp: check_ip_def send_message_def emit_def Let_def split: prod.splits option.splits)

lemma step_last_ip:
  "last_ip (snd (step cfg a st)) = last_ip st
   \<or> (\<exists>fetch ok ip. a = Tick fetch ok \<and> fst (get_ip fetch st) = Some ip \<and> last_ip (snd (step cfg a st)) = Some ip)"
proof (cases a)
  case (Tick fetch ok)
  then show ?thesis using check_ip_last_ip [of cfg fetch ok st] by (auto simp: main_loop_iteration_eq)
next
  case (Inbound fetch ok msg)
  then show ?thesis by (simp add: telepot_handle_last_ip)
qed

lemma run_last_ip_kept: "last_ip st \<noteq> None \<Longrightarrow> last_ip (snd (run cfg as st)) \<noteq> None"
proof (induction as arbitrary: st)
  case Nil
  then show ?case by simp
next
  case (Cons a as)
  have "last_ip (snd (step cfg a st)) \<noteq> None"
    using step_last_ip [of cfg a st] Cons.prems by auto
  then show ?case using Cons.IH by simp
qed

lemma run_last_ip_fetched:
  "last_ip (snd (run cfg as st)) = last_ip st
   \<or> (\<exists>fetch ok ip. Tick fetch ok \<in> set as \<and> fst (get_ip fetch initial_state) = Some ip
         \<and> last_ip (snd (run cfg as st)) = Some ip)"
proof (induction as arbitrary: st)
  case Nil
  then show ?case by simp
next
  case (Cons a as)
  from Cons.IH [of "snd (step cfg a st)"] show ?case
  proof
    assume keep: "last_ip (snd (run cfg as (snd (step cfg a st)))) = last_ip (snd (step cfg a st))"
    from step_last_ip [of cfg a st] show ?thesis
    proof
      assume "last_ip (snd (step cfg a st)) = last_ip st"
      then show ?thesis using keep by simp
    next
      assume "\<exists>fetch ok ip. a = Tick fetch ok \<and> fst (get_ip fetch st) = Some ip \<and> last_ip (snd (step cfg a st)) = Some ip"
      then obtain fetch ok ip where "a = Tick fetch ok" "fst (get_ip fetch st) = Some ip" "last_ip (snd (step cfg a st)) = Some ip"
        by blast
      then have "Tick fetch ok \<in> set (a # as) \<and> fst (get_ip fetch initial_state) = Some ip
                 \<and> last_ip (snd (run cfg (a # as) st)) = Some ip"
        using keep get_ip_result [of fetch st initial_state] by simp
      then show ?thesis by blast
    qed
  next
    assume "\<exists>fetch ok ip. Tick fetch ok \<in> set as \<and> fst (get_ip fetch initial_state) = Some ip
         \<and> last_ip (snd (run cfg as (snd (step cfg a st)))) = Some ip"
    then show ?thesis by auto
  qed
qed

text \<open>
  Claim C10. last_ip starts as None. Every activity leaves it unchanged, or is a pass of
  the main loop that assigns it the string its own fetch just returned. Once it is not
  None it is not None after any run. The handler never changes it. After any run from
  the initial state it is None or a string that a fetch of one of the run's passes returned.
\<close>

theorem last_ip_invariant:
  "last_ip initial_state = None
   \<and> (last_ip (snd (step cfg a st)) = last_ip st
      \<or> (\<exists>fetch ok ip. a = Tick fetch ok \<and> fst (get_ip fetch st) = Some ip \<and> last_ip (snd (step cfg a st)) = Some ip))
   \<and> (last_ip st \<noteq> None \<longrightarrow> last_ip (snd (run cfg as st)) \<noteq> None)
   \<and> last_ip (snd (telepot_handle cfg fetch ok msg st)) = last_ip st
   \<and> (last_ip (snd (run cfg as initial_state)) = None
      \<or> (\<exists>fetch ok ip. Tick fetch ok \<in> set as \<and> fst (get_ip fetch initial_state) = Some ip
            \<and> last_ip (snd (run cfg as initial_state)) = Some ip))"
  using step_last_ip [of cfg a st] run_last_ip_kept [of st cfg as] telepot_handle_last_ip [of cfg fetch ok msg st]
    run_last_ip_fetched [of cfg as initial_state]
  by (simp add: initial_state_def)

theorem last_ip_invariant_witness:
  "last_ip \<lparr>last_ip = Some ''1.2.3.4'', trace = []\<rparr> \<noteq> None
   \<and> last_ip (snd (run example_config
        [Tick HttpRaises True, Inbound HttpRaises True example_message,
         Tick (HttpResponse 200 (Some ''5.6.7.8'')) False, Tick (HttpResponse 500 None) True]
        \<lparr>last_ip = Some ''1.2.3.4'', trace = []\<rparr>)) \<noteq> None"
proof -
  have h: "last_ip \<lparr>last_ip = Some ''1.2.3.4'', trace = []\<rparr> \<noteq> None" by simp
  show ?thesis
    using h last_ip_invariant [of example_config _ "\<lparr>last_ip = Some ''1.2.3.4'', trace = []\<rparr>"
        "[Tick HttpRaises True, Inbound HttpRaises True example_message,
         Tick (HttpResponse 200 (Some ''5.6.7.8'')) False, Tick (HttpResponse 500 None) True]"]
    by blast
qed

end
